theory Spec2Isabelle
  imports Main
begin

section \<open>Data of \<open>server/rpc/cluster_server.go\<close>\<close>

text \<open>
  \<open>types.ID\<close>, \<open>key.Key\<close> and \<open>sync.Key\<close> are Go string types. A Go \<open>error\<close> is an
  opaque value that \<open>DetachDocument\<close> only compares with \<open>nil\<close> and hands on; it is
  modelled by its message.
\<close>

type_synonym ID = string
type_synonym Key = string
type_synonym SyncKey = string

datatype error = Error string

text \<open>
  The request message and the values converted from it, with the fields that the function
  reads and one that it does not read (the name of the project).
\<close>

record pb_DocumentSummary =
  pb_summary_Id :: string
  pb_summary_Key :: string

record pb_Project =
  pb_project_Id :: string
  pb_project_Name :: string

record ClusterServiceDetachDocumentRequest =
  ClientId :: string
  DocumentSummary :: pb_DocumentSummary
  Project :: pb_Project

record DocumentSummary =
  summary_ID :: ID
  summary_Key :: Key

record Project =
  project_ID :: ID
  project_Name :: string

record ClientRefKey =
  client_ProjectID :: ID
  ClientID :: ID

record DocRefKey =
  doc_ProjectID :: ID
  DocID :: ID

text \<open>Modelled from the spec: a Checkpoint is the pair \<open>(serverSeq, clientSeq)\<close>.\<close>

record Checkpoint =
  ServerSeq :: int
  ClientSeq :: nat

text \<open>
  Modelled from the spec: the modes of a reconciliation are push only, pull only and push-pull;
  the lifecycle states are attached, detached and removed.
\<close>

datatype SyncMode = SyncModePushOnly | SyncModePullOnly | SyncModePushPull

datatype StatusType = StatusAttached | StatusDetached | StatusRemoved

record PushPullOptions =
  Mode :: SyncMode
  Status :: StatusType

text \<open>The response message has no field.\<close>

datatype ClusterServiceDetachDocumentResponse = ClusterServiceDetachDocumentResponse

text \<open>
  The Go result pair \<open>(*connect.Response, error)\<close>: \<open>None\<close> is \<open>nil\<close> in either
  component.
\<close>

type_synonym result = "ClusterServiceDetachDocumentResponse option \<times> error option"

section \<open>Collaborators\<close>

text \<open>
  Everything \<open>DetachDocument\<close> calls lives in other packages
  (\<open>time\<close>, \<open>converter\<close>, \<open>packs\<close>, \<open>clients\<close>, \<open>documents\<close>, \<open>document\<close>,
  \<open>presence\<close>, the coordinator of the backend). Each is a parameter here. The types
  they exchange are opaque to the function and are type variables:
  \<open>'actor\<close> (\<open>*time.ActorID\<close>), \<open>'locker\<close> (\<open>sync.Locker\<close>), \<open>'ci\<close>
  (\<open>*database.ClientInfo\<close>), \<open>'di\<close> (\<open>*database.DocInfo\<close>), \<open>'doc\<close>
  (\<open>*document.Document\<close>), \<open>'pack\<close> (\<open>*change.Pack\<close>), \<open>'root\<close>
  (\<open>*json.Object\<close>), \<open>'pres\<close> (\<open>*presence.Presence\<close>).

  A call that receives the context and the backend, or that is a method of the locker,
  reads and changes the state \<open>'st\<close> of the world outside the function (coordinator,
  database, deadline of the context): it maps the state to its Go result and the new
  state. The other calls work on the values they are given. \<open>Update\<close> mutates the
  document it is called on and so returns the document next to its error; its callback
  receives the root object and the presence by pointer and so returns them next to its
  error. The first result of \<open>packs.PushPull\<close> is discarded by the caller (\<open>_\<close>)
  and is left out.
\<close>

type_synonym ('root, 'pres) updater = "'root \<Rightarrow> 'pres \<Rightarrow> error option \<times> 'root \<times> 'pres"

record ('actor, 'locker, 'ci, 'di, 'doc, 'pack, 'root, 'pres, 'st) collaborators =
  ActorIDFromHex :: "string \<Rightarrow> error + 'actor"
  FromDocumentSummary :: "pb_DocumentSummary \<Rightarrow> DocumentSummary"
  FromProject :: "pb_Project \<Rightarrow> Project"
  PushPullKey :: "ID \<Rightarrow> Key \<Rightarrow> SyncKey"
  NewLocker :: "SyncKey \<Rightarrow> 'st \<Rightarrow> (error + 'locker) \<times> 'st"
  Lock :: "'locker \<Rightarrow> 'st \<Rightarrow> error option \<times> 'st"
  Unlock :: "'locker \<Rightarrow> 'st \<Rightarrow> error option \<times> 'st"
  IDFromActorID :: "'actor \<Rightarrow> ID"
  FindActiveClientInfo :: "ClientRefKey \<Rightarrow> 'st \<Rightarrow> (error + 'ci) \<times> 'st"
  FindDocInfoByRefKey :: "DocRefKey \<Rightarrow> 'st \<Rightarrow> (error + 'di) \<times> 'st"
  Checkpoint_of :: "'ci \<Rightarrow> ID \<Rightarrow> Checkpoint"
  BuildDocForCheckpoint :: "'di \<Rightarrow> Checkpoint \<Rightarrow> 'actor \<Rightarrow> 'st \<Rightarrow> (error + 'doc) \<times> 'st"
  Update :: "'doc \<Rightarrow> ('root, 'pres) updater \<Rightarrow> error option \<times> 'doc"
  Clear :: "'pres \<Rightarrow> 'pres"
  CreateChangePack :: "'doc \<Rightarrow> 'pack"
  PushPull :: "Project \<Rightarrow> 'ci \<Rightarrow> 'di \<Rightarrow> 'pack \<Rightarrow> PushPullOptions \<Rightarrow> 'st \<Rightarrow> error option \<times> 'st"

section \<open>The calls a run makes\<close>

text \<open>
  A run is observed through the calls it makes, in program order, each with its
  arguments and with what it returned. \<open>LogErrorCall\<close> is
  \<open>logging.DefaultLogger().Error\<close>.
\<close>

datatype ('actor, 'locker, 'ci, 'di, 'doc, 'pack) call =
    ActorIDFromHexCall string "error + 'actor"
  | NewLockerCall SyncKey "error + 'locker"
  | LockCall 'locker "error option"
  | UnlockCall 'locker "error option"
  | LogErrorCall error
  | FindActiveClientInfoCall ClientRefKey "error + 'ci"
  | FindDocInfoByRefKeyCall DocRefKey "error + 'di"
  | BuildDocForCheckpointCall 'di Checkpoint 'actor "error + 'doc"
  | UpdateCall 'doc "error option" 'doc
  | CreateChangePackCall 'doc 'pack
  | PushPullCall Project 'ci 'di 'pack PushPullOptions "error option"

record ('st, 'c) world =
  backend :: 'st
  calls :: "'c list"

definition observe :: "'c \<Rightarrow> ('st, 'c) world \<Rightarrow> ('st, 'c) world" where
  "observe c w = w\<lparr>calls := calls w @ [c]\<rparr>"

definition invoke ::
  "('st \<Rightarrow> 'r \<times> 'st) \<Rightarrow> ('r \<Rightarrow> 'c) \<Rightarrow> ('st, 'c) world \<Rightarrow> 'r \<times> ('st, 'c) world" where
  "invoke f c w =
     (case f (backend w) of (r, b) \<Rightarrow> (r, \<lparr>backend = b, calls = calls w @ [c r]\<rparr>))"

section \<open>\<open>DetachDocument\<close>\<close>

text \<open>The callback handed to \<open>doc.Update\<close> (lines 104 to 107): \<open>p.Clear()\<close>, then \<open>return nil\<close>.\<close>

definition DetachDocument_updater ::
  "('actor, 'locker, 'ci, 'di, 'doc, 'pack, 'root, 'pres, 'st) collaborators
     \<Rightarrow> ('root, 'pres) updater" where
  "DetachDocument_updater env root p = (None, root, Clear env p)"

text \<open>
  The deferred function (lines 72 to 76). It runs when the function returns, after the
  result pair has been set; the results are unnamed, so it cannot assign them.
\<close>

definition DetachDocument_deferred ::
  "('actor, 'locker, 'ci, 'di, 'doc, 'pack, 'root, 'pres, 'st) collaborators \<Rightarrow> 'locker
     \<Rightarrow> ('st, ('actor, 'locker, 'ci, 'di, 'doc, 'pack) call) world
     \<Rightarrow> ('st, ('actor, 'locker, 'ci, 'di, 'doc, 'pack) call) world" where
  "DetachDocument_deferred env locker w =
     (case invoke (Unlock env locker) (UnlockCall locker) w of
        (Some err, w1) \<Rightarrow> observe (LogErrorCall err) w1
      | (None, w1) \<Rightarrow> w1)"

text \<open>The statements after the \<open>defer\<close> (lines 78 to 127).\<close>

definition DetachDocument_locked ::
  "('actor, 'locker, 'ci, 'di, 'doc, 'pack, 'root, 'pres, 'st) collaborators
     \<Rightarrow> 'actor \<Rightarrow> DocumentSummary \<Rightarrow> Project
     \<Rightarrow> ('st, ('actor, 'locker, 'ci, 'di, 'doc, 'pack) call) world
     \<Rightarrow> result \<times> ('st, ('actor, 'locker, 'ci, 'di, 'doc, 'pack) call) world" where
  "DetachDocument_locked env actorID summary project w =
     (let clientRefKey = \<lparr>client_ProjectID = project_ID project,
                          ClientID = IDFromActorID env actorID\<rparr> in
      case invoke (FindActiveClientInfo env clientRefKey)
                  (FindActiveClientInfoCall clientRefKey) w of
        (Inl err, w1) \<Rightarrow> ((None, Some err), w1)
      | (Inr clientInfo, w1) \<Rightarrow>
     (let docRefKey = \<lparr>doc_ProjectID = project_ID project, DocID = summary_ID summary\<rparr> in
      case invoke (FindDocInfoByRefKey env docRefKey) (FindDocInfoByRefKeyCall docRefKey) w1 of
        (Inl err, w2) \<Rightarrow> ((None, Some err), w2)
      | (Inr docInfo, w2) \<Rightarrow>
     (let checkpoint = Checkpoint_of env clientInfo (summary_ID summary) in
      case invoke (BuildDocForCheckpoint env docInfo checkpoint actorID)
                  (BuildDocForCheckpointCall docInfo checkpoint actorID) w2 of
        (Inl err, w3) \<Rightarrow> ((None, Some err), w3)
      | (Inr doc, w3) \<Rightarrow>
     (case Update env doc (DetachDocument_updater env) of
        (Some err, doc') \<Rightarrow> ((None, Some err), observe (UpdateCall doc (Some err) doc') w3)
      | (None, doc') \<Rightarrow>
     (let w4 = observe (UpdateCall doc None doc') w3;
          pack = CreateChangePack env doc';
          w5 = observe (CreateChangePackCall doc' pack) w4;
          options = \<lparr>Mode = SyncModePushPull, Status = StatusDetached\<rparr> in
      case invoke (PushPull env project clientInfo docInfo pack options)
                  (PushPullCall project clientInfo docInfo pack options) w5 of
        (Some err, w6) \<Rightarrow> ((None, Some err), w6)
      | (None, w6) \<Rightarrow> ((Some ClusterServiceDetachDocumentResponse, None), w6))))))"

text \<open>
  The function (lines 52 to 128). A panic of a collaborator is not modelled: every
  collaborator returns.
\<close>

definition DetachDocument ::
  "('actor, 'locker, 'ci, 'di, 'doc, 'pack, 'root, 'pres, 'st) collaborators
     \<Rightarrow> ClusterServiceDetachDocumentRequest
     \<Rightarrow> ('st, ('actor, 'locker, 'ci, 'di, 'doc, 'pack) call) world
     \<Rightarrow> result \<times> ('st, ('actor, 'locker, 'ci, 'di, 'doc, 'pack) call) world" where
  "DetachDocument env req w =
     (let parsed = ActorIDFromHex env (ClientId req);
          w0 = observe (ActorIDFromHexCall (ClientId req) parsed) w in
      case parsed of
        Inl err \<Rightarrow> ((None, Some err), w0)
      | Inr actorID \<Rightarrow>
     (let summary = FromDocumentSummary env (DocumentSummary req);
          project = FromProject env (Project req);
          key = PushPullKey env (project_ID project) (summary_Key summary) in
      case invoke (NewLocker env key) (NewLockerCall key) w0 of
        (Inl err, w1) \<Rightarrow> ((None, Some err), w1)
      | (Inr locker, w1) \<Rightarrow>
     (case invoke (Lock env locker) (LockCall locker) w1 of
        (Some err, w2) \<Rightarrow> ((None, Some err), w2)
      | (None, w2) \<Rightarrow>
     (case DetachDocument_locked env actorID summary project w2 of
        (res, w3) \<Rightarrow> (res, DetachDocument_deferred env locker w3)))))"

text \<open>A run from a backend state, with nothing observed yet.\<close>

definition run ::
  "('actor, 'locker, 'ci, 'di, 'doc, 'pack, 'root, 'pres, 'st) collaborators
     \<Rightarrow> ClusterServiceDetachDocumentRequest \<Rightarrow> 'st
     \<Rightarrow> result \<times> ('st, ('actor, 'locker, 'ci, 'di, 'doc, 'pack) call) world" where
  "run env req b = DetachDocument env req \<lparr>backend = b, calls = []\<rparr>"

definition returned ::
  "('actor, 'locker, 'ci, 'di, 'doc, 'pack, 'root, 'pres, 'st) collaborators
     \<Rightarrow> ClusterServiceDetachDocumentRequest \<Rightarrow> 'st \<Rightarrow> result" where
  "returned env req b = fst (run env req b)"

definition trace ::
  "('actor, 'locker, 'ci, 'di, 'doc, 'pack, 'root, 'pres, 'st) collaborators
     \<Rightarrow> ClusterServiceDetachDocumentRequest \<Rightarrow> 'st
     \<Rightarrow> ('actor, 'locker, 'ci, 'di, 'doc, 'pack) call list" where
  "trace env req b = calls (snd (run env req b))"

definition final ::
  "('actor, 'locker, 'ci, 'di, 'doc, 'pack, 'root, 'pres, 'st) collaborators
     \<Rightarrow> ClusterServiceDetachDocumentRequest \<Rightarrow> 'st \<Rightarrow> 'st" where
  "final env req b = backend (snd (run env req b))"

section \<open>Reading a run\<close>

text \<open>The values computed on lines 61, 62, 64, 78 to 81, 86 to 89, 99 and 119 to 122.\<close>

abbreviation "summary_of env req \<equiv> FromDocumentSummary env (DocumentSummary req)"
abbreviation "project_of env req \<equiv> FromProject env (Project req)"
abbreviation "lockKey env req \<equiv>
  PushPullKey env (project_ID (project_of env req)) (summary_Key (summary_of env req))"
abbreviation "clientRefKey env req a \<equiv>
  \<lparr>client_ProjectID = project_ID (project_of env req), ClientID = IDFromActorID env a\<rparr>"
abbreviation "docRefKey env req \<equiv>
  \<lparr>doc_ProjectID = project_ID (project_of env req), DocID = summary_ID (summary_of env req)\<rparr>"
abbreviation "checkpoint_of env req ci \<equiv> Checkpoint_of env ci (summary_ID (summary_of env req))"
abbreviation "detachOptions \<equiv> \<lparr>Mode = SyncModePushPull, Status = StatusDetached\<rparr>"

text \<open>The calls of the deferred function: the unlock, and the log entry when it failed.\<close>

fun release_calls ::
  "'locker \<Rightarrow> error option \<Rightarrow> ('actor, 'locker, 'ci, 'di, 'doc, 'pack) call list" where
  "release_calls l None = [UnlockCall l None]"
| "release_calls l (Some e) = [UnlockCall l (Some e), LogErrorCall e]"

text \<open>The error a call returned, \<open>None\<close> when it returned none or cannot return one.\<close>

fun call_error :: "('actor, 'locker, 'ci, 'di, 'doc, 'pack) call \<Rightarrow> error option" where
  "call_error (ActorIDFromHexCall s r) = (case r of Inl e \<Rightarrow> Some e | Inr a \<Rightarrow> None)"
| "call_error (NewLockerCall k r) = (case r of Inl e \<Rightarrow> Some e | Inr l \<Rightarrow> None)"
| "call_error (LockCall l r) = r"
| "call_error (UnlockCall l r) = r"
| "call_error (LogErrorCall e) = None"
| "call_error (FindActiveClientInfoCall k r) = (case r of Inl e \<Rightarrow> Some e | Inr c \<Rightarrow> None)"
| "call_error (FindDocInfoByRefKeyCall k r) = (case r of Inl e \<Rightarrow> Some e | Inr d \<Rightarrow> None)"
| "call_error (BuildDocForCheckpointCall d c a r) =
     (case r of Inl e \<Rightarrow> Some e | Inr m \<Rightarrow> None)"
| "call_error (UpdateCall d r d') = r"
| "call_error (CreateChangePackCall d p) = None"
| "call_error (PushPullCall pr c d p opts r) = r"

text \<open>The step of the operation a call belongs to, and the steps in the order of the source.\<close>

datatype step =
    ParseActorID | ConstructLocker | AcquireLock | ClientLookup | DocumentLookup
  | SnapshotBuild | LocalUpdate | PackageChanges | EngineCommit | ReleaseLock | LogRelease

fun step_of :: "('actor, 'locker, 'ci, 'di, 'doc, 'pack) call \<Rightarrow> step" where
  "step_of (ActorIDFromHexCall s r) = ParseActorID"
| "step_of (NewLockerCall k r) = ConstructLocker"
| "step_of (LockCall l r) = AcquireLock"
| "step_of (UnlockCall l r) = ReleaseLock"
| "step_of (LogErrorCall e) = LogRelease"
| "step_of (FindActiveClientInfoCall k r) = ClientLookup"
| "step_of (FindDocInfoByRefKeyCall k r) = DocumentLookup"
| "step_of (BuildDocForCheckpointCall d c a r) = SnapshotBuild"
| "step_of (UpdateCall d r d') = LocalUpdate"
| "step_of (CreateChangePackCall d p) = PackageChanges"
| "step_of (PushPullCall pr c d p opts r) = EngineCommit"

definition detach_steps :: "step list" where
  "detach_steps = [ParseActorID, ConstructLocker, AcquireLock, ClientLookup, DocumentLookup,
     SnapshotBuild, LocalUpdate, PackageChanges, EngineCommit]"

definition is_release :: "('actor, 'locker, 'ci, 'di, 'doc, 'pack) call \<Rightarrow> bool" where
  "is_release c = (step_of c = ReleaseLock \<or> step_of c = LogRelease)"

definition is_Unlock :: "('actor, 'locker, 'ci, 'di, 'doc, 'pack) call \<Rightarrow> bool" where
  "is_Unlock c = (step_of c = ReleaseLock)"

definition is_Lock :: "('actor, 'locker, 'ci, 'di, 'doc, 'pack) call \<Rightarrow> bool" where
  "is_Lock c = (step_of c = AcquireLock)"

definition is_Update :: "('actor, 'locker, 'ci, 'di, 'doc, 'pack) call \<Rightarrow> bool" where
  "is_Update c = (step_of c = LocalUpdate)"

text \<open>The keys with which a run constructed lockers.\<close>

fun locker_keys :: "('actor, 'locker, 'ci, 'di, 'doc, 'pack) call list \<Rightarrow> SyncKey list" where
  "locker_keys [] = []"
| "locker_keys (NewLockerCall k r # cs) = k # locker_keys cs"
| "locker_keys (c # cs) = locker_keys cs"

section \<open>A test double\<close>

text \<open>
  Collaborators for concrete runs: the steps listed in \<open>fs\<close> fail, the others succeed.
  The backend state counts the calls that reached it. A document is its root, its
  presence and the number of its local changes; \<open>Update\<close> runs the callback on the root
  and the presence and records one change; a change pack is the presence and that number.
\<close>

type_synonym mock_doc = "string list \<times> (string \<times> string) list \<times> nat"
type_synonym mock_pack = "(string \<times> string) list \<times> nat"

definition mock :: "step list \<Rightarrow>
  (string, string, string, string, mock_doc, mock_pack, string list, (string \<times> string) list, nat)
    collaborators" where
  "mock fs = \<lparr>
     ActorIDFromHex = (\<lambda>s. if ParseActorID \<in> set fs then Inl (Error ''invalid actor id'')
        else Inr s),
     FromDocumentSummary = (\<lambda>s. \<lparr>summary_ID = pb_summary_Id s, summary_Key = pb_summary_Key s\<rparr>),
     FromProject = (\<lambda>p. \<lparr>project_ID = pb_project_Id p, project_Name = pb_project_Name p\<rparr>),
     PushPullKey = (\<lambda>p k. ''pushpull-'' @ p @ ''-'' @ k),
     NewLocker = (\<lambda>k n. (if ConstructLocker \<in> set fs then Inl (Error ''lock unavailable'')
        else Inr k, Suc n)),
     Lock = (\<lambda>l n. (if AcquireLock \<in> set fs then Some (Error ''lock timeout'') else None,
        Suc n)),
     Unlock = (\<lambda>l n. (if ReleaseLock \<in> set fs then Some (Error ''unlock failed'') else None,
        Suc n)),
     IDFromActorID = (\<lambda>a. a),
     FindActiveClientInfo = (\<lambda>k n. (if ClientLookup \<in> set fs
        then Inl (Error ''client not found'') else Inr (ClientID k), Suc n)),
     FindDocInfoByRefKey = (\<lambda>k n. (if DocumentLookup \<in> set fs
        then Inl (Error ''document not found'') else Inr (DocID k), Suc n)),
     Checkpoint_of = (\<lambda>ci d. \<lparr>ServerSeq = 5, ClientSeq = 3\<rparr>),
     BuildDocForCheckpoint = (\<lambda>di cp a n. (if SnapshotBuild \<in> set fs
        then Inl (Error ''snapshot build failed'')
        else Inr ([''title''], [(''cursor'', ''7'')], 0), Suc n)),
     Update = (\<lambda>d f. case d of (r, p, k) \<Rightarrow>
        if LocalUpdate \<in> set fs then (Some (Error ''update failed''), d)
        else (case f r p of (Some e, r', p') \<Rightarrow> (Some e, d)
              | (None, r', p') \<Rightarrow> (None, (r', p', Suc k)))),
     Clear = (\<lambda>p. []),
     CreateChangePack = (\<lambda>d. case d of (r, p, k) \<Rightarrow> (p, k)),
     PushPull = (\<lambda>pr ci di pack opts n. (if EngineCommit \<in> set fs
        then Some (Error ''stale change pack'') else None, Suc n))\<rparr>"

definition mock_request :: ClusterServiceDetachDocumentRequest where
  "mock_request = \<lparr>ClientId = ''0000000000000000000000a1'',
     DocumentSummary = \<lparr>pb_summary_Id = ''d1'', pb_summary_Key = ''notes''\<rparr>,
     Project = \<lparr>pb_project_Id = ''p1'', pb_project_Name = ''default''\<rparr>\<rparr>"

definition mock_request2 :: ClusterServiceDetachDocumentRequest where
  "mock_request2 = \<lparr>ClientId = ''0000000000000000000000b2'',
     DocumentSummary = \<lparr>pb_summary_Id = ''d2'', pb_summary_Key = ''notes''\<rparr>,
     Project = \<lparr>pb_project_Id = ''p1'', pb_project_Name = ''renamed''\<rparr>\<rparr>"

section \<open>The shape of every run\<close>

lemmas detach_defs = run_def DetachDocument_def DetachDocument_locked_def
  DetachDocument_deferred_def invoke_def observe_def Let_def

lemma run_parse_failed:
  assumes "ActorIDFromHex env (ClientId req) = Inl e"
  shows "run env req b = ((None, Some e),
           \<lparr>backend = b, calls = [ActorIDFromHexCall (ClientId req) (Inl e)]\<rparr>)"
  using assms by (simp add: detach_defs)

lemma run_newlocker_failed:
  assumes "ActorIDFromHex env (ClientId req) = Inr a"
    and "NewLocker env (lockKey env req) b = (Inl e, b1)"
  shows "run env req b = ((None, Some e),
           \<lparr>backend = b1, calls = [ActorIDFromHexCall (ClientId req) (Inr a),
              NewLockerCall (lockKey env req) (Inl e)]\<rparr>)"
  using assms by (simp add: detach_defs)

lemma run_lock_failed:
  assumes "ActorIDFromHex env (ClientId req) = Inr a"
    and "NewLocker env (lockKey env req) b = (Inr l, b1)"
    and "Lock env l b1 = (Some e, b2)"
  shows "run env req b = ((None, Some e),
           \<lparr>backend = b2, calls = [ActorIDFromHexCall (ClientId req) (Inr a),
              NewLockerCall (lockKey env req) (Inr l),
              LockCall l (Some e)]\<rparr>)"
  using assms by (simp add: detach_defs)

lemma run_client_failed:
  assumes "ActorIDFromHex env (ClientId req) = Inr a"
    and "NewLocker env (lockKey env req) b = (Inr l, b1)"
    and "Lock env l b1 = (None, b2)"
    and "FindActiveClientInfo env (clientRefKey env req a) b2 = (Inl e, b3)"
    and "Unlock env l b3 = (ul, b')"
  shows "run env req b = ((None, Some e),
           \<lparr>backend = b', calls = [ActorIDFromHexCall (ClientId req) (Inr a),
              NewLockerCall (lockKey env req) (Inr l),
              LockCall l None,
              FindActiveClientInfoCall (clientRefKey env req a) (Inl e)] @ release_calls l ul\<rparr>)"
  using assms by (cases ul) (simp_all add: detach_defs)

lemma run_doc_failed:
  assumes "ActorIDFromHex env (ClientId req) = Inr a"
    and "NewLocker env (lockKey env req) b = (Inr l, b1)"
    and "Lock env l b1 = (None, b2)"
    and "FindActiveClientInfo env (clientRefKey env req a) b2 = (Inr ci, b3)"
    and "FindDocInfoByRefKey env (docRefKey env req) b3 = (Inl e, b4)"
    and "Unlock env l b4 = (ul, b')"
  shows "run env req b = ((None, Some e),
           \<lparr>backend = b', calls = [ActorIDFromHexCall (ClientId req) (Inr a),
              NewLockerCall (lockKey env req) (Inr l),
              LockCall l None,
              FindActiveClientInfoCall (clientRefKey env req a) (Inr ci),
              FindDocInfoByRefKeyCall (docRefKey env req) (Inl e)] @ release_calls l ul\<rparr>)"
  using assms by (cases ul) (simp_all add: detach_defs)

lemma run_build_failed:
  assumes "ActorIDFromHex env (ClientId req) = Inr a"
    and "NewLocker env (lockKey env req) b = (Inr l, b1)"
    and "Lock env l b1 = (None, b2)"
    and "FindActiveClientInfo env (clientRefKey env req a) b2 = (Inr ci, b3)"
    and "FindDocInfoByRefKey env (docRefKey env req) b3 = (Inr di, b4)"
    and "BuildDocForCheckpoint env di (checkpoint_of env req ci) a b4 = (Inl e, b5)"
    and "Unlock env l b5 = (ul, b')"
  shows "run env req b = ((None, Some e),
           \<lparr>backend = b', calls = [ActorIDFromHexCall (ClientId req) (Inr a),
              NewLockerCall (lockKey env req) (Inr l),
              LockCall l None,
              FindActiveClientInfoCall (clientRefKey env req a) (Inr ci),
              FindDocInfoByRefKeyCall (docRefKey env req) (Inr di),
              BuildDocForCheckpointCall di (checkpoint_of env req ci) a (Inl e)] @ release_calls l ul\<rparr>)"
  using assms by (cases ul) (simp_all add: detach_defs)

lemma run_update_failed:
  assumes "ActorIDFromHex env (ClientId req) = Inr a"
    and "NewLocker env (lockKey env req) b = (Inr l, b1)"
    and "Lock env l b1 = (None, b2)"
    and "FindActiveClientInfo env (clientRefKey env req a) b2 = (Inr ci, b3)"
    and "FindDocInfoByRefKey env (docRefKey env req) b3 = (Inr di, b4)"
    and "BuildDocForCheckpoint env di (checkpoint_of env req ci) a b4 = (Inr doc, b5)"
    and "Update env doc (DetachDocument_updater env) = (Some e, doc')"
    and "Unlock env l b5 = (ul, b')"
  shows "run env req b = ((None, Some e),
           \<lparr>backend = b', calls = [ActorIDFromHexCall (ClientId req) (Inr a),
              NewLockerCall (lockKey env req) (Inr l),
              LockCall l None,
              FindActiveClientInfoCall (clientRefKey env req a) (Inr ci),
              FindDocInfoByRefKeyCall (docRefKey env req) (Inr di),
              BuildDocForCheckpointCall di (checkpoint_of env req ci) a (Inr doc),
              UpdateCall doc (Some e) doc'] @ release_calls l ul\<rparr>)"
  using assms by (cases ul) (simp_all add: detach_defs)

lemma run_pushpull_failed:
  assumes "ActorIDFromHex env (ClientId req) = Inr a"
    and "NewLocker env (lockKey env req) b = (Inr l, b1)"
    and "Lock env l b1 = (None, b2)"
    and "FindActiveClientInfo env (clientRefKey env req a) b2 = (Inr ci, b3)"
    and "FindDocInfoByRefKey env (docRefKey env req) b3 = (Inr di, b4)"
    and "BuildDocForCheckpoint env di (checkpoint_of env req ci) a b4 = (Inr doc, b5)"
    and "Update env doc (DetachDocument_updater env) = (None, doc')"
    and "PushPull env (project_of env req) ci di (CreateChangePack env doc') detachOptions b5 = (Some e, b6)"
    and "Unlock env l b6 = (ul, b')"
  shows "run env req b = ((None, Some e),
           \<lparr>backend = b', calls = [ActorIDFromHexCall (ClientId req) (Inr a),
              NewLockerCall (lockKey env req) (Inr l),
              LockCall l None,
              FindActiveClientInfoCall (clientRefKey env req a) (Inr ci),
              FindDocInfoByRefKeyCall (docRefKey env req) (Inr di),
              BuildDocForCheckpointCall di (checkpoint_of env req ci) a (Inr doc),
              UpdateCall doc None doc',
              CreateChangePackCall doc' (CreateChangePack env doc'),
              PushPullCall (project_of env req) ci di (CreateChangePack env doc') detachOptions (Some e)] @ release_calls l ul\<rparr>)"
  using assms by (cases ul) (simp_all add: detach_defs)

lemma run_succeeded:
  assumes "ActorIDFromHex env (ClientId req) = Inr a"
    and "NewLocker env (lockKey env req) b = (Inr l, b1)"
    and "Lock env l b1 = (None, b2)"
    and "FindActiveClientInfo env (clientRefKey env req a) b2 = (Inr ci, b3)"
    and "FindDocInfoByRefKey env (docRefKey env req) b3 = (Inr di, b4)"
    and "BuildDocForCheckpoint env di (checkpoint_of env req ci) a b4 = (Inr doc, b5)"
    and "Update env doc (DetachDocument_updater env) = (None, doc')"
    and "PushPull env (project_of env req) ci di (CreateChangePack env doc') detachOptions b5 = (None, b6)"
    and "Unlock env l b6 = (ul, b')"
  shows "run env req b = ((Some ClusterServiceDetachDocumentResponse, None),
           \<lparr>backend = b', calls = [ActorIDFromHexCall (ClientId req) (Inr a),
              NewLockerCall (lockKey env req) (Inr l),
              LockCall l None,
              FindActiveClientInfoCall (clientRefKey env req a) (Inr ci),
              FindDocInfoByRefKeyCall (docRefKey env req) (Inr di),
              BuildDocForCheckpointCall di (checkpoint_of env req ci) a (Inr doc),
              UpdateCall doc None doc',
              CreateChangePackCall doc' (CreateChangePack env doc'),
              PushPullCall (project_of env req) ci di (CreateChangePack env doc') detachOptions None] @ release_calls l ul\<rparr>)"
  using assms by (cases ul) (simp_all add: detach_defs)

lemma run_cases [case_names parse_failed newlocker_failed lock_failed client_failed doc_failed build_failed update_failed pushpull_failed succeeded]:
  obtains
    (parse_failed) e where
      "ActorIDFromHex env (ClientId req) = Inl e"
      "run env req b = ((None, Some e),
           \<lparr>backend = b, calls = [ActorIDFromHexCall (ClientId req) (Inl e)]\<rparr>)"
  | (newlocker_failed) a e b1 where
      "ActorIDFromHex env (ClientId req) = Inr a"
      "NewLocker env (lockKey env req) b = (Inl e, b1)"
      "run env req b = ((None, Some e),
           \<lparr>backend = b1, calls = [ActorIDFromHexCall (ClientId req) (Inr a),
              NewLockerCall (lockKey env req) (Inl e)]\<rparr>)"
  | (lock_failed) a l b1 e b2 where
      "ActorIDFromHex env (ClientId req) = Inr a"
      "NewLocker env (lockKey env req) b = (Inr l, b1)"
      "Lock env l b1 = (Some e, b2)"
      "run env req b = ((None, Some e),
           \<lparr>backend = b2, calls = [ActorIDFromHexCall (ClientId req) (Inr a),
              NewLockerCall (lockKey env req) (Inr l),
              LockCall l (Some e)]\<rparr>)"
  | (client_failed) a l b1 b2 e b3 ul b' where
      "ActorIDFromHex env (ClientId req) = Inr a"
      "NewLocker env (lockKey env req) b = (Inr l, b1)"
      "Lock env l b1 = (None, b2)"
      "FindActiveClientInfo env (clientRefKey env req a) b2 = (Inl e, b3)"
      "Unlock env l b3 = (ul, b')"
      "run env req b = ((None, Some e),
           \<lparr>backend = b', calls = [ActorIDFromHexCall (ClientId req) (Inr a),
              NewLockerCall (lockKey env req) (Inr l),
              LockCall l None,
              FindActiveClientInfoCall (clientRefKey env req a) (Inl e)] @ release_calls l ul\<rparr>)"
  | (doc_failed) a l b1 b2 ci b3 e b4 ul b' where
      "ActorIDFromHex env (ClientId req) = Inr a"
      "NewLocker env (lockKey env req) b = (Inr l, b1)"
      "Lock env l b1 = (None, b2)"
      "FindActiveClientInfo env (clientRefKey env req a) b2 = (Inr ci, b3)"
      "FindDocInfoByRefKey env (docRefKey env req) b3 = (Inl e, b4)"
      "Unlock env l b4 = (ul, b')"
      "run env req b = ((None, Some e),
           \<lparr>backend = b', calls = [ActorIDFromHexCall (ClientId req) (Inr a),
              NewLockerCall (lockKey env req) (Inr l),
              LockCall l None,
              FindActiveClientInfoCall (clientRefKey env req a) (Inr ci),
              FindDocInfoByRefKeyCall (docRefKey env req) (Inl e)] @ release_calls l ul\<rparr>)"
  | (build_failed) a l b1 b2 ci b3 di b4 e b5 ul b' where
      "ActorIDFromHex env (ClientId req) = Inr a"
      "NewLocker env (lockKey env req) b = (Inr l, b1)"
      "Lock env l b1 = (None, b2)"
      "FindActiveClientInfo env (clientRefKey env req a) b2 = (Inr ci, b3)"
      "FindDocInfoByRefKey env (docRefKey env req) b3 = (Inr di, b4)"
      "BuildDocForCheckpoint env di (checkpoint_of env req ci) a b4 = (Inl e, b5)"
      "Unlock env l b5 = (ul, b')"
      "run env req b = ((None, Some e),
           \<lparr>backend = b', calls = [ActorIDFromHexCall (ClientId req) (Inr a),
              NewLockerCall (lockKey env req) (Inr l),
              LockCall l None,
              FindActiveClientInfoCall (clientRefKey env req a) (Inr ci),
              FindDocInfoByRefKeyCall (docRefKey env req) (Inr di),
              BuildDocForCheckpointCall di (checkpoint_of env req ci) a (Inl e)] @ release_calls l ul\<rparr>)"
  | (update_failed) a l b1 b2 ci b3 di b4 doc b5 e doc' ul b' where
      "ActorIDFromHex env (ClientId req) = Inr a"
      "NewLocker env (lockKey env req) b = (Inr l, b1)"
      "Lock env l b1 = (None, b2)"
      "FindActiveClientInfo env (clientRefKey env req a) b2 = (Inr ci, b3)"
      "FindDocInfoByRefKey env (docRefKey env req) b3 = (Inr di, b4)"
      "BuildDocForCheckpoint env di (checkpoint_of env req ci) a b4 = (Inr doc, b5)"
      "Update env doc (DetachDocument_updater env) = (Some e, doc')"
      "Unlock env l b5 = (ul, b')"
      "run env req b = ((None, Some e),
           \<lparr>backend = b', calls = [ActorIDFromHexCall (ClientId req) (Inr a),
              NewLockerCall (lockKey env req) (Inr l),
              LockCall l None,
              FindActiveClientInfoCall (clientRefKey env req a) (Inr ci),
              FindDocInfoByRefKeyCall (docRefKey env req) (Inr di),
              BuildDocForCheckpointCall di (checkpoint_of env req ci) a (Inr doc),
              UpdateCall doc (Some e) doc'] @ release_calls l ul\<rparr>)"
  | (pushpull_failed) a l b1 b2 ci b3 di b4 doc b5 doc' e b6 ul b' where
      "ActorIDFromHex env (ClientId req) = Inr a"
      "NewLocker env (lockKey env req) b = (Inr l, b1)"
      "Lock env l b1 = (None, b2)"
      "FindActiveClientInfo env (clientRefKey env req a) b2 = (Inr ci, b3)"
      "FindDocInfoByRefKey env (docRefKey env req) b3 = (Inr di, b4)"
      "BuildDocForCheckpoint env di (checkpoint_of env req ci) a b4 = (Inr doc, b5)"
      "Update env doc (DetachDocument_updater env) = (None, doc')"
      "PushPull env (project_of env req) ci di (CreateChangePack env doc') detachOptions b5 = (Some e, b6)"
      "Unlock env l b6 = (ul, b')"
      "run env req b = ((None, Some e),
           \<lparr>backend = b', calls = [ActorIDFromHexCall (ClientId req) (Inr a),
              NewLockerCall (lockKey env req) (Inr l),
              LockCall l None,
              FindActiveClientInfoCall (clientRefKey env req a) (Inr ci),
              FindDocInfoByRefKeyCall (docRefKey env req) (Inr di),
              BuildDocForCheckpointCall di (checkpoint_of env req ci) a (Inr doc),
              UpdateCall doc None doc',
              CreateChangePackCall doc' (CreateChangePack env doc'),
              PushPullCall (project_of env req) ci di (CreateChangePack env doc') detachOptions (Some e)] @ release_calls l ul\<rparr>)"
  | (succeeded) a l b1 b2 ci b3 di b4 doc b5 doc' b6 ul b' where
      "ActorIDFromHex env (ClientId req) = Inr a"
      "NewLocker env (lockKey env req) b = (Inr l, b1)"
      "Lock env l b1 = (None, b2)"
      "FindActiveClientInfo env (clientRefKey env req a) b2 = (Inr ci, b3)"
      "FindDocInfoByRefKey env (docRefKey env req) b3 = (Inr di, b4)"
      "BuildDocForCheckpoint env di (checkpoint_of env req ci) a b4 = (Inr doc, b5)"
      "Update env doc (DetachDocument_updater env) = (None, doc')"
      "PushPull env (project_of env req) ci di (CreateChangePack env doc') detachOptions b5 = (None, b6)"
      "Unlock env l b6 = (ul, b')"
      "run env req b = ((Some ClusterServiceDetachDocumentResponse, None),
           \<lparr>backend = b', calls = [ActorIDFromHexCall (ClientId req) (Inr a),
              NewLockerCall (lockKey env req) (Inr l),
              LockCall l None,
              FindActiveClientInfoCall (clientRefKey env req a) (Inr ci),
              FindDocInfoByRefKeyCall (docRefKey env req) (Inr di),
              BuildDocForCheckpointCall di (checkpoint_of env req ci) a (Inr doc),
              UpdateCall doc None doc',
              CreateChangePackCall doc' (CreateChangePack env doc'),
              PushPullCall (project_of env req) ci di (CreateChangePack env doc') detachOptions None] @ release_calls l ul\<rparr>)"
proof (cases "ActorIDFromHex env (ClientId req)")
  case (Inl e)
  show thesis by (rule parse_failed[OF Inl run_parse_failed[OF Inl]])
next
  case A: (Inr a)
  obtain r1 b1 where N': "NewLocker env (lockKey env req) b = (r1, b1)"
    by (cases "NewLocker env (lockKey env req) b")
  show thesis
  proof (cases r1)
    case (Inl e)
    with N' have N: "NewLocker env (lockKey env req) b = (Inl e, b1)" by simp
    show thesis by (rule newlocker_failed[OF A N run_newlocker_failed[OF A N]])
  next
    case (Inr l)
    with N' have N: "NewLocker env (lockKey env req) b = (Inr l, b1)" by simp
    obtain r2 b2 where L': "Lock env l b1 = (r2, b2)"
      by (cases "Lock env l b1")
    show thesis
    proof (cases r2)
      case (Some e)
      with L' have L: "Lock env l b1 = (Some e, b2)" by simp
      show thesis by (rule lock_failed[OF A N L run_lock_failed[OF A N L]])
    next
      case None
      with L' have L: "Lock env l b1 = (None, b2)" by simp
      obtain r3 b3 where C': "FindActiveClientInfo env (clientRefKey env req a) b2 = (r3, b3)"
        by (cases "FindActiveClientInfo env (clientRefKey env req a) b2")
      show thesis
      proof (cases r3)
        case (Inl e)
        with C' have C: "FindActiveClientInfo env (clientRefKey env req a) b2 = (Inl e, b3)" by simp
        obtain ul b' where R: "Unlock env l b3 = (ul, b')" by (cases "Unlock env l b3")
        show thesis by (rule client_failed[OF A N L C R run_client_failed[OF A N L C R]])
      next
        case (Inr ci)
        with C' have C: "FindActiveClientInfo env (clientRefKey env req a) b2 = (Inr ci, b3)" by simp
        obtain r4 b4 where D': "FindDocInfoByRefKey env (docRefKey env req) b3 = (r4, b4)"
          by (cases "FindDocInfoByRefKey env (docRefKey env req) b3")
        show thesis
        proof (cases r4)
          case (Inl e)
          with D' have D: "FindDocInfoByRefKey env (docRefKey env req) b3 = (Inl e, b4)" by simp
          obtain ul b' where R: "Unlock env l b4 = (ul, b')" by (cases "Unlock env l b4")
          show thesis by (rule doc_failed[OF A N L C D R run_doc_failed[OF A N L C D R]])
        next
          case (Inr di)
          with D' have D: "FindDocInfoByRefKey env (docRefKey env req) b3 = (Inr di, b4)" by simp
          obtain r5 b5 where B': "BuildDocForCheckpoint env di (checkpoint_of env req ci) a b4 = (r5, b5)"
            by (cases "BuildDocForCheckpoint env di (checkpoint_of env req ci) a b4")
          show thesis
          proof (cases r5)
            case (Inl e)
            with B' have B: "BuildDocForCheckpoint env di (checkpoint_of env req ci) a b4 = (Inl e, b5)" by simp
            obtain ul b' where R: "Unlock env l b5 = (ul, b')" by (cases "Unlock env l b5")
            show thesis by (rule build_failed[OF A N L C D B R run_build_failed[OF A N L C D B R]])
          next
            case (Inr doc)
            with B' have B: "BuildDocForCheckpoint env di (checkpoint_of env req ci) a b4 = (Inr doc, b5)" by simp
            obtain r6 doc' where U': "Update env doc (DetachDocument_updater env) = (r6, doc')"
              by (cases "Update env doc (DetachDocument_updater env)")
            show thesis
            proof (cases r6)
              case (Some e)
              with U' have U: "Update env doc (DetachDocument_updater env) = (Some e, doc')" by simp
              obtain ul b' where R: "Unlock env l b5 = (ul, b')" by (cases "Unlock env l b5")
              show thesis by (rule update_failed[OF A N L C D B U R run_update_failed[OF A N L C D B U R]])
            next
              case None
              with U' have U: "Update env doc (DetachDocument_updater env) = (None, doc')" by simp
              obtain r7 b6 where P': "PushPull env (project_of env req) ci di (CreateChangePack env doc') detachOptions b5 = (r7, b6)"
                by (cases "PushPull env (project_of env req) ci di (CreateChangePack env doc') detachOptions b5")
              show thesis
              proof (cases r7)
                case (Some e)
                with P' have P: "PushPull env (project_of env req) ci di (CreateChangePack env doc') detachOptions b5 = (Some e, b6)" by simp
                obtain ul b' where R: "Unlock env l b6 = (ul, b')" by (cases "Unlock env l b6")
                show thesis by (rule pushpull_failed[OF A N L C D B U P R run_pushpull_failed[OF A N L C D B U P R]])
              next
                case None
                with P' have P: "PushPull env (project_of env req) ci di (CreateChangePack env doc') detachOptions b5 = (None, b6)" by simp
                obtain ul b' where R: "Unlock env l b6 = (ul, b')" by (cases "Unlock env l b6")
                show thesis by (rule succeeded[OF A N L C D B U P R run_succeeded[OF A N L C D B U P R]])
              qed
            qed
          qed
        qed
      qed
    qed
  qed
qed

lemma release_calls_release: "x \<in> set (release_calls l ul) \<Longrightarrow> is_release x"
  by (cases ul) (auto simp: is_release_def)

lemma release_calls_Update: "filter is_Update (release_calls l ul) = []"
  by (cases ul) (simp_all add: is_Update_def)

lemma release_calls_keys: "locker_keys (release_calls l ul) = []"
  by (cases ul) simp_all

lemma release_calls_mem:
  "x \<in> set (release_calls l ul) \<longleftrightarrow>
     x = UnlockCall l ul \<or> (\<exists>e. ul = Some e \<and> x = LogErrorCall e)"
  by (cases ul) auto

lemma updater_Unlock: "DetachDocument_updater (env\<lparr>Unlock := u\<rparr>) = DetachDocument_updater env"
  by (simp add: fun_eq_iff DetachDocument_updater_def)

lemma locked_Unlock:
  "DetachDocument_locked (env\<lparr>Unlock := u\<rparr>) a s p w = DetachDocument_locked env a s p w"
  by (simp add: DetachDocument_locked_def updater_Unlock Let_def
      cong: sum.case_cong option.case_cong prod.case_cong)

lemma returned_Unlock:
  "returned (env\<lparr>Unlock := u\<rparr>) req b = returned env req b"
  by (simp add: returned_def run_def DetachDocument_def locked_Unlock invoke_def Let_def
      split: sum.split option.split prod.split)

lemma release_calls_eq:
  "release_calls l ul = UnlockCall l ul # (case ul of None \<Rightarrow> [] | Some e \<Rightarrow> [LogErrorCall e])"
  by (cases ul) simp_all

lemma locker_keys_trace:
  "locker_keys (trace env req b) =
     (case ActorIDFromHex env (ClientId req) of Inl e \<Rightarrow> [] | Inr a \<Rightarrow> [lockKey env req])"
  by (cases rule: run_cases[of env req b]) (simp_all add: trace_def release_calls_keys)


lemmas mock_defs = detach_defs mock_def mock_request_def mock_request2_def
  DetachDocument_updater_def

lemma mock_run_ok:
  "run (mock []) mock_request 0 =
     ((Some ClusterServiceDetachDocumentResponse, None),
      \<lparr>backend = 7, calls =
        [ActorIDFromHexCall ''0000000000000000000000a1'' (Inr ''0000000000000000000000a1''),
         NewLockerCall ''pushpull-p1-notes'' (Inr ''pushpull-p1-notes''),
         LockCall ''pushpull-p1-notes'' None,
         FindActiveClientInfoCall
           \<lparr>client_ProjectID = ''p1'', ClientID = ''0000000000000000000000a1''\<rparr>
           (Inr ''0000000000000000000000a1''),
         FindDocInfoByRefKeyCall \<lparr>doc_ProjectID = ''p1'', DocID = ''d1''\<rparr> (Inr ''d1''),
         BuildDocForCheckpointCall ''d1'' \<lparr>ServerSeq = 5, ClientSeq = 3\<rparr>
           ''0000000000000000000000a1'' (Inr ([''title''], [(''cursor'', ''7'')], 0)),
         UpdateCall ([''title''], [(''cursor'', ''7'')], 0) None ([''title''], [], 1),
         CreateChangePackCall ([''title''], [], 1) ([], 1),
         PushPullCall \<lparr>project_ID = ''p1'', project_Name = ''default''\<rparr>
           ''0000000000000000000000a1'' ''d1'' ([], 1) detachOptions None,
         UnlockCall ''pushpull-p1-notes'' None]\<rparr>)"
  by (simp add: mock_defs)

lemma mock_run_client_missing:
  "run (mock [ClientLookup, ReleaseLock]) mock_request 0 =
     ((None, Some (Error ''client not found'')),
      \<lparr>backend = 4, calls =
        [ActorIDFromHexCall ''0000000000000000000000a1'' (Inr ''0000000000000000000000a1''),
         NewLockerCall ''pushpull-p1-notes'' (Inr ''pushpull-p1-notes''),
         LockCall ''pushpull-p1-notes'' None,
         FindActiveClientInfoCall
           \<lparr>client_ProjectID = ''p1'', ClientID = ''0000000000000000000000a1''\<rparr>
           (Inl (Error ''client not found'')),
         UnlockCall ''pushpull-p1-notes'' (Some (Error ''unlock failed'')),
         LogErrorCall (Error ''unlock failed'')]\<rparr>)"
  by (simp add: mock_defs)

lemma mock_run_build_failed:
  "run (mock [SnapshotBuild]) mock_request 0 =
     ((None, Some (Error ''snapshot build failed'')),
      \<lparr>backend = 6, calls =
        [ActorIDFromHexCall ''0000000000000000000000a1'' (Inr ''0000000000000000000000a1''),
         NewLockerCall ''pushpull-p1-notes'' (Inr ''pushpull-p1-notes''),
         LockCall ''pushpull-p1-notes'' None,
         FindActiveClientInfoCall
           \<lparr>client_ProjectID = ''p1'', ClientID = ''0000000000000000000000a1''\<rparr>
           (Inr ''0000000000000000000000a1''),
         FindDocInfoByRefKeyCall \<lparr>doc_ProjectID = ''p1'', DocID = ''d1''\<rparr> (Inr ''d1''),
         BuildDocForCheckpointCall ''d1'' \<lparr>ServerSeq = 5, ClientSeq = 3\<rparr>
           ''0000000000000000000000a1'' (Inl (Error ''snapshot build failed'')),
         UnlockCall ''pushpull-p1-notes'' None]\<rparr>)"
  by (simp add: mock_defs)

lemma mock_run_no_locker:
  "run (mock [ConstructLocker]) mock_request 0 =
     ((None, Some (Error ''lock unavailable'')),
      \<lparr>backend = 1, calls =
        [ActorIDFromHexCall ''0000000000000000000000a1'' (Inr ''0000000000000000000000a1''),
         NewLockerCall ''pushpull-p1-notes'' (Inl (Error ''lock unavailable''))]\<rparr>)"
  by (simp add: mock_defs)

section \<open>The claims\<close>

text \<open>
  C1: a run that returns without error makes its calls in exactly this order, each one
  recorded with a successful return: the client ID is parsed, the locker is constructed
  with the push-pull key and locked, the client record and then the document record are
  looked up, the document is built at the checkpoint that the client record holds for the
  document ID of the summary, \<open>Update\<close> is applied with the presence-clearing callback,
  the change pack of the updated document is created and handed to \<open>PushPull\<close> with the
  options of a detach, and the locker is unlocked (a failed unlock is logged).
\<close>

theorem successful_detach_call_order:
  assumes "snd (returned env req b) = None"
  shows "\<exists>a l ci di doc doc' ul.
      Update env doc (DetachDocument_updater env) = (None, doc')
    \<and> returned env req b = (Some ClusterServiceDetachDocumentResponse, None)
    \<and> trace env req b =
        [ActorIDFromHexCall (ClientId req) (Inr a),
         NewLockerCall (lockKey env req) (Inr l),
         LockCall l None,
         FindActiveClientInfoCall (clientRefKey env req a) (Inr ci),
         FindDocInfoByRefKeyCall (docRefKey env req) (Inr di),
         BuildDocForCheckpointCall di (Checkpoint_of env ci (summary_ID (summary_of env req))) a
           (Inr doc),
         UpdateCall doc None doc',
         CreateChangePackCall doc' (CreateChangePack env doc'),
         PushPullCall (project_of env req) ci di (CreateChangePack env doc')
           \<lparr>Mode = SyncModePushPull, Status = StatusDetached\<rparr> None]
        @ release_calls l ul"
  using assms
  by (cases rule: run_cases[of env req b]) (auto simp: returned_def trace_def)

theorem successful_detach_call_order_witness:
  "snd (returned (mock []) mock_request 0) = None
    \<and> trace (mock []) mock_request 0 =
        [ActorIDFromHexCall ''0000000000000000000000a1'' (Inr ''0000000000000000000000a1''),
         NewLockerCall ''pushpull-p1-notes'' (Inr ''pushpull-p1-notes''),
         LockCall ''pushpull-p1-notes'' None,
         FindActiveClientInfoCall
           \<lparr>client_ProjectID = ''p1'', ClientID = ''0000000000000000000000a1''\<rparr>
           (Inr ''0000000000000000000000a1''),
         FindDocInfoByRefKeyCall \<lparr>doc_ProjectID = ''p1'', DocID = ''d1''\<rparr> (Inr ''d1''),
         BuildDocForCheckpointCall ''d1'' \<lparr>ServerSeq = 5, ClientSeq = 3\<rparr>
           ''0000000000000000000000a1'' (Inr ([''title''], [(''cursor'', ''7'')], 0)),
         UpdateCall ([''title''], [(''cursor'', ''7'')], 0) None ([''title''], [], 1),
         CreateChangePackCall ([''title''], [], 1) ([], 1),
         PushPullCall \<lparr>project_ID = ''p1'', project_Name = ''default''\<rparr>
           ''0000000000000000000000a1'' ''d1'' ([], 1)
           \<lparr>Mode = SyncModePushPull, Status = StatusDetached\<rparr> None,
         UnlockCall ''pushpull-p1-notes'' None]"
proof -
  have h: "snd (returned (mock []) mock_request 0) = None"
    by (simp add: returned_def mock_run_ok)
  from successful_detach_call_order[OF h]
  have "returned (mock []) mock_request 0 = (Some ClusterServiceDetachDocumentResponse, None)"
    by blast
  with h show ?thesis
    by (simp add: trace_def mock_run_ok)
qed

text \<open>
  C2: when the client ID of the request is not a valid hex-encoded ActorID, that is
  when \<open>ActorIDFromHex\<close> returns an error, \<open>DetachDocument\<close> returns a nil response
  with that error; the parse is the only call of the run (no locker is constructed or
  locked, nothing is looked up, built or pushed) and the backend state is unchanged.
\<close>

theorem invalid_client_id_returns_before_lock:
  assumes "ActorIDFromHex env (ClientId req) = Inl e"
  shows "returned env req b = (None, Some e)
    \<and> trace env req b = [ActorIDFromHexCall (ClientId req) (Inl e)]
    \<and> final env req b = b"
  using run_parse_failed[OF assms] by (simp add: returned_def trace_def final_def)

theorem invalid_client_id_returns_before_lock_witness:
  "ActorIDFromHex (mock [ParseActorID]) (ClientId mock_request) = Inl (Error ''invalid actor id'')
    \<and> returned (mock [ParseActorID]) mock_request 0 = (None, Some (Error ''invalid actor id''))
    \<and> trace (mock [ParseActorID]) mock_request 0
        = [ActorIDFromHexCall ''0000000000000000000000a1'' (Inl (Error ''invalid actor id''))]
    \<and> final (mock [ParseActorID]) mock_request 0 = 0"
proof -
  have h: "ActorIDFromHex (mock [ParseActorID]) (ClientId mock_request)
      = Inl (Error ''invalid actor id'')"
    by (simp add: mock_def)
  show ?thesis
    using h invalid_client_id_returns_before_lock[OF h, of 0] by (simp add: mock_request_def)
qed

text \<open>
  C3: in every run in which \<open>Lock\<close> returned without error, the run ends with the
  unlock of that locker, whichever way the function returns: the calls of the run are
  calls that are not part of the release, followed by the \<open>Unlock\<close> and, when it
  failed, the log entry for its error. The pair that \<open>DetachDocument\<close> returns does not
  depend on \<open>Unlock\<close>: it is the same with any other behaviour \<open>u\<close> of the unlock.
\<close>

theorem unlock_runs_on_every_exit_and_is_only_logged:
  assumes "LockCall lk None \<in> set (trace env req b)"
  shows "(\<exists>pre ul. trace env req b = pre @ release_calls lk ul
            \<and> (\<forall>c \<in> set pre. \<not> is_release c))
    \<and> (\<forall>u. returned (env\<lparr>Unlock := u\<rparr>) req b = returned env req b)"
proof
  show "\<forall>u. returned (env\<lparr>Unlock := u\<rparr>) req b = returned env req b"
    by (simp add: returned_Unlock)
  show "\<exists>pre ul. trace env req b = pre @ release_calls lk ul
          \<and> (\<forall>c \<in> set pre. \<not> is_release c)"
  proof (cases rule: run_cases[of env req b])
    case (parse_failed e)
    with assms show ?thesis by (simp add: trace_def)
  next
    case (newlocker_failed a e b1)
    with assms show ?thesis by (simp add: trace_def)
  next
    case (lock_failed a l b1 e b2)
    with assms show ?thesis by (simp add: trace_def)
  next
    case (client_failed a l b1 b2 e b3 ul b')
    with assms have [simp]: "lk = l" by (auto simp: trace_def release_calls_mem)
    show ?thesis
      by (rule exI[of _ "[ActorIDFromHexCall (ClientId req) (Inr a),
          NewLockerCall (lockKey env req) (Inr l),
          LockCall l None,
          FindActiveClientInfoCall (clientRefKey env req a) (Inl e)]"],
          rule exI[of _ ul])
        (simp add: trace_def client_failed is_release_def)
  next
    case (doc_failed a l b1 b2 ci b3 e b4 ul b')
    with assms have [simp]: "lk = l" by (auto simp: trace_def release_calls_mem)
    show ?thesis
      by (rule exI[of _ "[ActorIDFromHexCall (ClientId req) (Inr a),
          NewLockerCall (lockKey env req) (Inr l),
          LockCall l None,
          FindActiveClientInfoCall (clientRefKey env req a) (Inr ci),
          FindDocInfoByRefKeyCall (docRefKey env req) (Inl e)]"],
          rule exI[of _ ul])
        (simp add: trace_def doc_failed is_release_def)
  next
    case (build_failed a l b1 b2 ci b3 di b4 e b5 ul b')
    with assms have [simp]: "lk = l" by (auto simp: trace_def release_calls_mem)
    show ?thesis
      by (rule exI[of _ "[ActorIDFromHexCall (ClientId req) (Inr a),
          NewLockerCall (lockKey env req) (Inr l),
          LockCall l None,
          FindActiveClientInfoCall (clientRefKey env req a) (Inr ci),
          FindDocInfoByRefKeyCall (docRefKey env req) (Inr di),
          BuildDocForCheckpointCall di (checkpoint_of env req ci) a (Inl e)]"],
          rule exI[of _ ul])
        (simp add: trace_def build_failed is_release_def)
  next
    case (update_failed a l b1 b2 ci b3 di b4 doc b5 e doc' ul b')
    with assms have [simp]: "lk = l" by (auto simp: trace_def release_calls_mem)
    show ?thesis
      by (rule exI[of _ "[ActorIDFromHexCall (ClientId req) (Inr a),
          NewLockerCall (lockKey env req) (Inr l),
          LockCall l None,
          FindActiveClientInfoCall (clientRefKey env req a) (Inr ci),
          FindDocInfoByRefKeyCall (docRefKey env req) (Inr di),
          BuildDocForCheckpointCall di (checkpoint_of env req ci) a (Inr doc),
          UpdateCall doc (Some e) doc']"],
          rule exI[of _ ul])
        (simp add: trace_def update_failed is_release_def)
  next
    case (pushpull_failed a l b1 b2 ci b3 di b4 doc b5 doc' e b6 ul b')
    with assms have [simp]: "lk = l" by (auto simp: trace_def release_calls_mem)
    show ?thesis
      by (rule exI[of _ "[ActorIDFromHexCall (ClientId req) (Inr a),
          NewLockerCall (lockKey env req) (Inr l),
          LockCall l None,
          FindActiveClientInfoCall (clientRefKey env req a) (Inr ci),
          FindDocInfoByRefKeyCall (docRefKey env req) (Inr di),
          BuildDocForCheckpointCall di (checkpoint_of env req ci) a (Inr doc),
          UpdateCall doc None doc',
          CreateChangePackCall doc' (CreateChangePack env doc'),
          PushPullCall (project_of env req) ci di (CreateChangePack env doc') detachOptions (Some e)]"],
          rule exI[of _ ul])
        (simp add: trace_def pushpull_failed is_release_def)
  next
    case (succeeded a l b1 b2 ci b3 di b4 doc b5 doc' b6 ul b')
    with assms have [simp]: "lk = l" by (auto simp: trace_def release_calls_mem)
    show ?thesis
      by (rule exI[of _ "[ActorIDFromHexCall (ClientId req) (Inr a),
          NewLockerCall (lockKey env req) (Inr l),
          LockCall l None,
          FindActiveClientInfoCall (clientRefKey env req a) (Inr ci),
          FindDocInfoByRefKeyCall (docRefKey env req) (Inr di),
          BuildDocForCheckpointCall di (checkpoint_of env req ci) a (Inr doc),
          UpdateCall doc None doc',
          CreateChangePackCall doc' (CreateChangePack env doc'),
          PushPullCall (project_of env req) ci di (CreateChangePack env doc') detachOptions None]"],
          rule exI[of _ ul])
        (simp add: trace_def succeeded is_release_def)
  qed
qed

theorem unlock_runs_on_every_exit_and_is_only_logged_witness:
  "LockCall ''pushpull-p1-notes'' None \<in> set (trace (mock [ClientLookup, ReleaseLock]) mock_request 0)
    \<and> trace (mock [ClientLookup, ReleaseLock]) mock_request 0 =
        [ActorIDFromHexCall ''0000000000000000000000a1'' (Inr ''0000000000000000000000a1''),
         NewLockerCall ''pushpull-p1-notes'' (Inr ''pushpull-p1-notes''),
         LockCall ''pushpull-p1-notes'' None,
         FindActiveClientInfoCall
           \<lparr>client_ProjectID = ''p1'', ClientID = ''0000000000000000000000a1''\<rparr>
           (Inl (Error ''client not found''))]
        @ release_calls ''pushpull-p1-notes'' (Some (Error ''unlock failed''))
    \<and> returned (mock [ClientLookup, ReleaseLock]) mock_request 0
        = (None, Some (Error ''client not found''))
    \<and> returned ((mock [ClientLookup, ReleaseLock])\<lparr>Unlock := \<lambda>l n. (None, n)\<rparr>) mock_request 0
        = (None, Some (Error ''client not found''))"
proof -
  have h: "LockCall ''pushpull-p1-notes'' None
      \<in> set (trace (mock [ClientLookup, ReleaseLock]) mock_request 0)"
    by (simp add: trace_def mock_run_client_missing)
  from unlock_runs_on_every_exit_and_is_only_logged[OF h]
  have "returned ((mock [ClientLookup, ReleaseLock])\<lparr>Unlock := \<lambda>l n. (None, n)\<rparr>) mock_request 0
      = returned (mock [ClientLookup, ReleaseLock]) mock_request 0"
    by blast
  with h show ?thesis
    by (simp add: trace_def returned_def mock_run_client_missing)
qed

text \<open>
  C4: when \<open>Locker.Lock\<close> returns an error, \<open>DetachDocument\<close> returns a nil response
  with that error, and the run consists of the parse, the construction of the locker and
  the failed \<open>Lock\<close> only: no directory lookup, no snapshot build, no push-pull (and no
  unlock).
\<close>

theorem lock_failure_returns_without_lookups:
  assumes "ActorIDFromHex env (ClientId req) = Inr a"
    and "NewLocker env (lockKey env req) b = (Inr l, b1)"
    and "Lock env l b1 = (Some e, b2)"
  shows "returned env req b = (None, Some e)
    \<and> trace env req b = [ActorIDFromHexCall (ClientId req) (Inr a),
         NewLockerCall (lockKey env req) (Inr l), LockCall l (Some e)]
    \<and> final env req b = b2"
  using run_lock_failed[OF assms] by (simp add: returned_def trace_def final_def)

theorem lock_failure_returns_without_lookups_witness:
  "returned (mock [AcquireLock]) mock_request 0 = (None, Some (Error ''lock timeout''))
    \<and> trace (mock [AcquireLock]) mock_request 0
        = [ActorIDFromHexCall ''0000000000000000000000a1'' (Inr ''0000000000000000000000a1''),
           NewLockerCall ''pushpull-p1-notes'' (Inr ''pushpull-p1-notes''),
           LockCall ''pushpull-p1-notes'' (Some (Error ''lock timeout''))]
    \<and> final (mock [AcquireLock]) mock_request 0 = 2"
proof -
  have h1: "ActorIDFromHex (mock [AcquireLock]) (ClientId mock_request)
      = Inr ''0000000000000000000000a1''"
    by (simp add: mock_def mock_request_def)
  have h2: "NewLocker (mock [AcquireLock]) (lockKey (mock [AcquireLock]) mock_request) 0
      = (Inr ''pushpull-p1-notes'', 1)"
    by (simp add: mock_def mock_request_def)
  have h3: "Lock (mock [AcquireLock]) ''pushpull-p1-notes'' 1
      = (Some (Error ''lock timeout''), 2)"
    by (simp add: mock_def)
  show ?thesis
    using lock_failure_returns_without_lookups[OF h1 h2 h3]
    by (simp add: mock_def mock_request_def)
qed

text \<open>
  C5: a run that returns without error has handed a change pack to \<open>PushPull\<close>, and
  whenever a run calls \<open>PushPull\<close>, it does so with mode \<open>SyncModePushPull\<close> and
  status \<open>StatusDetached\<close>, right after these calls: the document is built, \<open>Update\<close>
  is applied to the built document with the callback and succeeds, and the change pack
  of the updated document is created; that pack is the one pushed. The callback sets the
  presence to what \<open>Clear\<close> makes of it.
\<close>

theorem detach_pushes_presence_clear_with_status_detached:
  "(snd (returned env req b) = None \<longrightarrow>
      (\<exists>ci di pack. PushPullCall (project_of env req) ci di pack
          \<lparr>Mode = SyncModePushPull, Status = StatusDetached\<rparr> None \<in> set (trace env req b)))
    \<and> (\<forall>pr ci di pack opts r. PushPullCall pr ci di pack opts r \<in> set (trace env req b) \<longrightarrow>
          opts = \<lparr>Mode = SyncModePushPull, Status = StatusDetached\<rparr>
        \<and> (\<exists>pre cp a doc doc' post.
              trace env req b = pre @ [BuildDocForCheckpointCall di cp a (Inr doc),
                UpdateCall doc None doc', CreateChangePackCall doc' pack,
                PushPullCall pr ci di pack opts r] @ post
            \<and> Update env doc (DetachDocument_updater env) = (None, doc')
            \<and> pack = CreateChangePack env doc'))
    \<and> (\<forall>root p. snd (snd (DetachDocument_updater env root p)) = Clear env p)"
proof (intro conjI allI impI)
  assume "snd (returned env req b) = None"
  then show "\<exists>ci di pack. PushPullCall (project_of env req) ci di pack
      \<lparr>Mode = SyncModePushPull, Status = StatusDetached\<rparr> None \<in> set (trace env req b)"
    by (cases rule: run_cases[of env req b]) (auto simp: returned_def trace_def)
next
  fix root p
  show "snd (snd (DetachDocument_updater env root p)) = Clear env p"
    by (simp add: DetachDocument_updater_def)
next
  fix pr ci' di' pack opts r
  assume m: "PushPullCall pr ci' di' pack opts r \<in> set (trace env req b)"
  then show "opts = \<lparr>Mode = SyncModePushPull, Status = StatusDetached\<rparr>"
    by (cases rule: run_cases[of env req b]) (auto simp: trace_def release_calls_mem)
  show "\<exists>pre cp a doc doc' post.
      trace env req b = pre @ [BuildDocForCheckpointCall di' cp a (Inr doc),
        UpdateCall doc None doc', CreateChangePackCall doc' pack,
        PushPullCall pr ci' di' pack opts r] @ post
    \<and> Update env doc (DetachDocument_updater env) = (None, doc')
    \<and> pack = CreateChangePack env doc'"
  proof (cases rule: run_cases[of env req b])
    case (pushpull_failed a l b1 b2 ci b3 di b4 doc b5 doc' e b6 ul b')
    with m have eqs: "pr = project_of env req" "ci' = ci" "di' = di"
        "pack = CreateChangePack env doc'" "opts = detachOptions" "r = Some e"
      by (auto simp: trace_def release_calls_mem)
    have "trace env req b =
        [ActorIDFromHexCall (ClientId req) (Inr a), NewLockerCall (lockKey env req) (Inr l),
         LockCall l None, FindActiveClientInfoCall (clientRefKey env req a) (Inr ci),
         FindDocInfoByRefKeyCall (docRefKey env req) (Inr di)]
        @ [BuildDocForCheckpointCall di' (checkpoint_of env req ci) a (Inr doc),
           UpdateCall doc None doc', CreateChangePackCall doc' pack,
           PushPullCall pr ci' di' pack opts r] @ release_calls l ul"
      by (simp add: trace_def pushpull_failed eqs)
    with pushpull_failed(7) eqs(4) show ?thesis by blast
  next
    case (succeeded a l b1 b2 ci b3 di b4 doc b5 doc' b6 ul b')
    with m have eqs: "pr = project_of env req" "ci' = ci" "di' = di"
        "pack = CreateChangePack env doc'" "opts = detachOptions" "r = None"
      by (auto simp: trace_def release_calls_mem)
    have "trace env req b =
        [ActorIDFromHexCall (ClientId req) (Inr a), NewLockerCall (lockKey env req) (Inr l),
         LockCall l None, FindActiveClientInfoCall (clientRefKey env req a) (Inr ci),
         FindDocInfoByRefKeyCall (docRefKey env req) (Inr di)]
        @ [BuildDocForCheckpointCall di' (checkpoint_of env req ci) a (Inr doc),
           UpdateCall doc None doc', CreateChangePackCall doc' pack,
           PushPullCall pr ci' di' pack opts r] @ release_calls l ul"
      by (simp add: trace_def succeeded eqs)
    with succeeded(7) eqs(4) show ?thesis by blast
  qed (use m in \<open>auto simp: trace_def release_calls_mem\<close>)
qed

theorem detach_pushes_presence_clear_with_status_detached_witness:
  "snd (returned (mock []) mock_request 0) = None
    \<and> PushPullCall \<lparr>project_ID = ''p1'', project_Name = ''default''\<rparr>
          ''0000000000000000000000a1'' ''d1'' ([], 1)
          \<lparr>Mode = SyncModePushPull, Status = StatusDetached\<rparr> None
        \<in> set (trace (mock []) mock_request 0)
    \<and> Update (mock []) ([''title''], [(''cursor'', ''7'')], 0) (DetachDocument_updater (mock []))
        = (None, ([''title''], [], 1))
    \<and> CreateChangePack (mock []) ([''title''], [], 1) = ([], 1)"
proof -
  have h: "snd (returned (mock []) mock_request 0) = None"
    by (simp add: returned_def mock_run_ok)
  with detach_pushes_presence_clear_with_status_detached[of "mock []" mock_request 0]
  have "\<exists>ci di pack. PushPullCall (project_of (mock []) mock_request) ci di pack
      \<lparr>Mode = SyncModePushPull, Status = StatusDetached\<rparr> None
        \<in> set (trace (mock []) mock_request 0)"
    by blast
  with h show ?thesis
    by (simp add: trace_def mock_run_ok) (simp add: mock_def DetachDocument_updater_def)
qed

text \<open>
  C6: a run that returns an error returns a nil response, and its calls are: steps of
  the operation in the order of the source, from the parse on, that all returned without
  error; then the next step, which returned the error that \<open>DetachDocument\<close> returns;
  then nothing but the deferred release. No step after the failing one is executed.
\<close>

theorem failing_detach_returns_first_error:
  assumes "snd (returned env req b) = Some err"
  shows "fst (returned env req b) = None
    \<and> (\<exists>pre c post. trace env req b = pre @ c # post
          \<and> map step_of (pre @ [c]) = take (Suc (length pre)) detach_steps
          \<and> (\<forall>x \<in> set pre. call_error x = None)
          \<and> call_error c = Some err
          \<and> (\<forall>x \<in> set post. is_release x))"
proof (cases rule: run_cases[of env req b])
  case (parse_failed e)
  with assms have [simp]: "err = e" by (simp add: returned_def)
  have "\<exists>pre c post. trace env req b = pre @ c # post
          \<and> map step_of (pre @ [c]) = take (Suc (length pre)) detach_steps
          \<and> (\<forall>x \<in> set pre. call_error x = None)
          \<and> call_error c = Some err
          \<and> (\<forall>x \<in> set post. is_release x)"
    by (rule exI[of _ "[]"],
        rule exI[of _ "ActorIDFromHexCall (ClientId req) (Inl e)"],
        rule exI[of _ "[]"])
      (simp add: trace_def parse_failed detach_steps_def release_calls_release)
  then show ?thesis by (simp add: returned_def parse_failed)
next
  case (newlocker_failed a e b1)
  with assms have [simp]: "err = e" by (simp add: returned_def)
  have "\<exists>pre c post. trace env req b = pre @ c # post
          \<and> map step_of (pre @ [c]) = take (Suc (length pre)) detach_steps
          \<and> (\<forall>x \<in> set pre. call_error x = None)
          \<and> call_error c = Some err
          \<and> (\<forall>x \<in> set post. is_release x)"
    by (rule exI[of _ "[ActorIDFromHexCall (ClientId req) (Inr a)]"],
        rule exI[of _ "NewLockerCall (lockKey env req) (Inl e)"],
        rule exI[of _ "[]"])
      (simp add: trace_def newlocker_failed detach_steps_def release_calls_release)
  then show ?thesis by (simp add: returned_def newlocker_failed)
next
  case (lock_failed a l b1 e b2)
  with assms have [simp]: "err = e" by (simp add: returned_def)
  have "\<exists>pre c post. trace env req b = pre @ c # post
          \<and> map step_of (pre @ [c]) = take (Suc (length pre)) detach_steps
          \<and> (\<forall>x \<in> set pre. call_error x = None)
          \<and> call_error c = Some err
          \<and> (\<forall>x \<in> set post. is_release x)"
    by (rule exI[of _ "[ActorIDFromHexCall (ClientId req) (Inr a),
          NewLockerCall (lockKey env req) (Inr l)]"],
        rule exI[of _ "LockCall l (Some e)"],
        rule exI[of _ "[]"])
      (simp add: trace_def lock_failed detach_steps_def release_calls_release)
  then show ?thesis by (simp add: returned_def lock_failed)
next
  case (client_failed a l b1 b2 e b3 ul b')
  with assms have [simp]: "err = e" by (simp add: returned_def)
  have "\<exists>pre c post. trace env req b = pre @ c # post
          \<and> map step_of (pre @ [c]) = take (Suc (length pre)) detach_steps
          \<and> (\<forall>x \<in> set pre. call_error x = None)
          \<and> call_error c = Some err
          \<and> (\<forall>x \<in> set post. is_release x)"
    by (rule exI[of _ "[ActorIDFromHexCall (ClientId req) (Inr a),
          NewLockerCall (lockKey env req) (Inr l),
          LockCall l None]"],
        rule exI[of _ "FindActiveClientInfoCall (clientRefKey env req a) (Inl e)"],
        rule exI[of _ "release_calls l ul"])
      (simp add: trace_def client_failed detach_steps_def release_calls_release)
  then show ?thesis by (simp add: returned_def client_failed)
next
  case (doc_failed a l b1 b2 ci b3 e b4 ul b')
  with assms have [simp]: "err = e" by (simp add: returned_def)
  have "\<exists>pre c post. trace env req b = pre @ c # post
          \<and> map step_of (pre @ [c]) = take (Suc (length pre)) detach_steps
          \<and> (\<forall>x \<in> set pre. call_error x = None)
          \<and> call_error c = Some err
          \<and> (\<forall>x \<in> set post. is_release x)"
    by (rule exI[of _ "[ActorIDFromHexCall (ClientId req) (Inr a),
          NewLockerCall (lockKey env req) (Inr l),
          LockCall l None,
          FindActiveClientInfoCall (clientRefKey env req a) (Inr ci)]"],
        rule exI[of _ "FindDocInfoByRefKeyCall (docRefKey env req) (Inl e)"],
        rule exI[of _ "release_calls l ul"])
      (simp add: trace_def doc_failed detach_steps_def release_calls_release)
  then show ?thesis by (simp add: returned_def doc_failed)
next
  case (build_failed a l b1 b2 ci b3 di b4 e b5 ul b')
  with assms have [simp]: "err = e" by (simp add: returned_def)
  have "\<exists>pre c post. trace env req b = pre @ c # post
          \<and> map step_of (pre @ [c]) = take (Suc (length pre)) detach_steps
          \<and> (\<forall>x \<in> set pre. call_error x = None)
          \<and> call_error c = Some err
          \<and> (\<forall>x \<in> set post. is_release x)"
    by (rule exI[of _ "[ActorIDFromHexCall (ClientId req) (Inr a),
          NewLockerCall (lockKey env req) (Inr l),
          LockCall l None,
          FindActiveClientInfoCall (clientRefKey env req a) (Inr ci),
          FindDocInfoByRefKeyCall (docRefKey env req) (Inr di)]"],
        rule exI[of _ "BuildDocForCheckpointCall di (checkpoint_of env req ci) a (Inl e)"],
        rule exI[of _ "release_calls l ul"])
      (simp add: trace_def build_failed detach_steps_def release_calls_release)
  then show ?thesis by (simp add: returned_def build_failed)
next
  case (update_failed a l b1 b2 ci b3 di b4 doc b5 e doc' ul b')
  with assms have [simp]: "err = e" by (simp add: returned_def)
  have "\<exists>pre c post. trace env req b = pre @ c # post
          \<and> map step_of (pre @ [c]) = take (Suc (length pre)) detach_steps
          \<and> (\<forall>x \<in> set pre. call_error x = None)
          \<and> call_error c = Some err
          \<and> (\<forall>x \<in> set post. is_release x)"
    by (rule exI[of _ "[ActorIDFromHexCall (ClientId req) (Inr a),
          NewLockerCall (lockKey env req) (Inr l),
          LockCall l None,
          FindActiveClientInfoCall (clientRefKey env req a) (Inr ci),
          FindDocInfoByRefKeyCall (docRefKey env req) (Inr di),
          BuildDocForCheckpointCall di (checkpoint_of env req ci) a (Inr doc)]"],
        rule exI[of _ "UpdateCall doc (Some e) doc'"],
        rule exI[of _ "release_calls l ul"])
      (simp add: trace_def update_failed detach_steps_def release_calls_release)
  then show ?thesis by (simp add: returned_def update_failed)
next
  case (pushpull_failed a l b1 b2 ci b3 di b4 doc b5 doc' e b6 ul b')
  with assms have [simp]: "err = e" by (simp add: returned_def)
  have "\<exists>pre c post. trace env req b = pre @ c # post
          \<and> map step_of (pre @ [c]) = take (Suc (length pre)) detach_steps
          \<and> (\<forall>x \<in> set pre. call_error x = None)
          \<and> call_error c = Some err
          \<and> (\<forall>x \<in> set post. is_release x)"
    by (rule exI[of _ "[ActorIDFromHexCall (ClientId req) (Inr a),
          NewLockerCall (lockKey env req) (Inr l),
          LockCall l None,
          FindActiveClientInfoCall (clientRefKey env req a) (Inr ci),
          FindDocInfoByRefKeyCall (docRefKey env req) (Inr di),
          BuildDocForCheckpointCall di (checkpoint_of env req ci) a (Inr doc),
          UpdateCall doc None doc',
          CreateChangePackCall doc' (CreateChangePack env doc')]"],
        rule exI[of _ "PushPullCall (project_of env req) ci di (CreateChangePack env doc') detachOptions (Some e)"],
        rule exI[of _ "release_calls l ul"])
      (simp add: trace_def pushpull_failed detach_steps_def release_calls_release)
  then show ?thesis by (simp add: returned_def pushpull_failed)
next
  case (succeeded a l b1 b2 ci b3 di b4 doc b5 doc' b6 ul b')
  with assms show ?thesis by (simp add: returned_def)
qed

theorem failing_detach_returns_first_error_witness:
  "snd (returned (mock [SnapshotBuild]) mock_request 0) = Some (Error ''snapshot build failed'')
    \<and> fst (returned (mock [SnapshotBuild]) mock_request 0) = None
    \<and> map step_of (trace (mock [SnapshotBuild]) mock_request 0) =
        [ParseActorID, ConstructLocker, AcquireLock, ClientLookup, DocumentLookup,
         SnapshotBuild, ReleaseLock]"
proof -
  have h: "snd (returned (mock [SnapshotBuild]) mock_request 0)
      = Some (Error ''snapshot build failed'')"
    by (simp add: returned_def mock_run_build_failed)
  from failing_detach_returns_first_error[OF h]
  have "fst (returned (mock [SnapshotBuild]) mock_request 0) = None"
    by blast
  with h show ?thesis
    by (simp add: trace_def mock_run_build_failed)
qed

text \<open>
  C7: when every call of the run other than those of the deferred release returned
  without error, \<open>DetachDocument\<close> returns the empty
  \<open>ClusterServiceDetachDocumentResponse\<close> and a nil error.
\<close>

theorem all_steps_succeed_returns_empty_response:
  assumes "\<forall>c \<in> set (trace env req b). \<not> is_release c \<longrightarrow> call_error c = None"
  shows "returned env req b = (Some ClusterServiceDetachDocumentResponse, None)"
  using assms
  by (cases rule: run_cases[of env req b]) (auto simp: returned_def trace_def is_release_def)

theorem all_steps_succeed_returns_empty_response_witness:
  "list_all (\<lambda>c. is_release c \<or> call_error c = None) (trace (mock [ReleaseLock]) mock_request 0)
    \<and> trace (mock [ReleaseLock]) mock_request 0 \<noteq> []
    \<and> returned (mock [ReleaseLock]) mock_request 0
        = (Some ClusterServiceDetachDocumentResponse, None)"
proof -
  have h: "\<forall>c \<in> set (trace (mock [ReleaseLock]) mock_request 0).
      \<not> is_release c \<longrightarrow> call_error c = None"
    by (simp add: trace_def mock_defs is_release_def)
  have "trace (mock [ReleaseLock]) mock_request 0 \<noteq> []"
    by (simp add: trace_def mock_defs)
  with h show ?thesis
    using all_steps_succeed_returns_empty_response[OF h] by (auto simp: list_all_iff)
qed

text \<open>
  C8: the key with which a run constructs its locker is \<open>PushPullKey\<close> of the project
  ID and the document key of its request. Two runs whose requests have the same project
  ID and the same document key construct their lockers with equal keys, whatever the
  other fields of the requests and the backend states they start from.
\<close>

theorem lock_key_is_function_of_project_and_document_key:
  assumes "project_ID (project_of env req1) = project_ID (project_of env req2)"
    and "summary_Key (summary_of env req1) = summary_Key (summary_of env req2)"
    and "k1 \<in> set (locker_keys (trace env req1 s1))"
    and "k2 \<in> set (locker_keys (trace env req2 s2))"
  shows "k1 = k2
    \<and> k1 = PushPullKey env (project_ID (project_of env req1)) (summary_Key (summary_of env req1))"
  using assms by (auto simp: locker_keys_trace split: sum.splits)

theorem lock_key_is_function_of_project_and_document_key_witness:
  "locker_keys (trace (mock []) mock_request 0) = [''pushpull-p1-notes'']
    \<and> locker_keys (trace (mock []) mock_request2 5) = [''pushpull-p1-notes'']
    \<and> ClientId mock_request \<noteq> ClientId mock_request2
    \<and> DocumentSummary mock_request \<noteq> DocumentSummary mock_request2
    \<and> Project mock_request \<noteq> Project mock_request2"
proof -
  have k1: "locker_keys (trace (mock []) mock_request 0) = [''pushpull-p1-notes'']"
    by (simp add: locker_keys_trace mock_def mock_request_def)
  have k2: "locker_keys (trace (mock []) mock_request2 5) = [''pushpull-p1-notes'']"
    by (simp add: locker_keys_trace mock_def mock_request2_def)
  have h1: "project_ID (project_of (mock []) mock_request)
      = project_ID (project_of (mock []) mock_request2)"
    by (simp add: mock_def mock_request_def mock_request2_def)
  have h2: "summary_Key (summary_of (mock []) mock_request)
      = summary_Key (summary_of (mock []) mock_request2)"
    by (simp add: mock_def mock_request_def mock_request2_def)
  have m1: "''pushpull-p1-notes'' \<in> set (locker_keys (trace (mock []) mock_request 0))"
    by (simp add: k1)
  have m2: "''pushpull-p1-notes'' \<in> set (locker_keys (trace (mock []) mock_request2 5))"
    by (simp add: k2)
  from lock_key_is_function_of_project_and_document_key[OF h1 h2 m1 m2] k1 k2
  show ?thesis
    by (simp add: mock_request_def mock_request2_def)
qed

text \<open>
  C9: a run calls \<open>Unlock\<close> once when a \<open>Lock\<close> of the run returned without error and
  not at all otherwise, and the locker it unlocks is the one it locked. When
  \<open>NewLocker\<close> returns an error, that error is returned and the run consists of the
  parse and the \<open>NewLocker\<close> call: neither \<open>Lock\<close> nor \<open>Unlock\<close> is called.
\<close>

theorem unlock_once_iff_lock_succeeded:
  "length (filter is_Unlock (trace env req b)) =
      (if list_ex (\<lambda>c. is_Lock c \<and> call_error c = None) (trace env req b) then 1 else 0)
    \<and> (\<forall>l r. UnlockCall l r \<in> set (trace env req b)
          \<longrightarrow> LockCall l None \<in> set (trace env req b))
    \<and> (\<forall>a e b1. ActorIDFromHex env (ClientId req) = Inr a
          \<longrightarrow> NewLocker env (lockKey env req) b = (Inl e, b1)
          \<longrightarrow> returned env req b = (None, Some e)
              \<and> trace env req b = [ActorIDFromHexCall (ClientId req) (Inr a),
                    NewLockerCall (lockKey env req) (Inl e)])"
proof (intro conjI allI impI)
  show "length (filter is_Unlock (trace env req b)) =
      (if list_ex (\<lambda>c. is_Lock c \<and> call_error c = None) (trace env req b) then 1 else 0)"
    by (cases rule: run_cases[of env req b])
      (simp_all add: trace_def is_Unlock_def is_Lock_def release_calls_eq split: option.split)
next
  fix l r
  assume "UnlockCall l r \<in> set (trace env req b)"
  then show "LockCall l None \<in> set (trace env req b)"
    by (cases rule: run_cases[of env req b]) (auto simp: trace_def release_calls_mem)
next
  fix a e b1
  assume "ActorIDFromHex env (ClientId req) = Inr a"
    and "NewLocker env (lockKey env req) b = (Inl e, b1)"
  then have R: "run env req b = ((None, Some e),
      \<lparr>backend = b1, calls = [ActorIDFromHexCall (ClientId req) (Inr a),
         NewLockerCall (lockKey env req) (Inl e)]\<rparr>)"
    by (rule run_newlocker_failed)
  show "returned env req b = (None, Some e)"
    by (simp add: returned_def R)
  show "trace env req b = [ActorIDFromHexCall (ClientId req) (Inr a),
      NewLockerCall (lockKey env req) (Inl e)]"
    by (simp add: trace_def R)
qed

theorem unlock_once_iff_lock_succeeded_witness:
  "length (filter is_Unlock (trace (mock []) mock_request 0)) = 1
    \<and> length (filter is_Unlock (trace (mock [ConstructLocker]) mock_request 0)) = 0
    \<and> returned (mock [ConstructLocker]) mock_request 0 = (None, Some (Error ''lock unavailable''))
    \<and> trace (mock [ConstructLocker]) mock_request 0 =
        [ActorIDFromHexCall ''0000000000000000000000a1'' (Inr ''0000000000000000000000a1''),
         NewLockerCall ''pushpull-p1-notes'' (Inl (Error ''lock unavailable''))]"
proof -
  have h1: "ActorIDFromHex (mock [ConstructLocker]) (ClientId mock_request)
      = Inr ''0000000000000000000000a1''"
    by (simp add: mock_def mock_request_def)
  have h2: "NewLocker (mock [ConstructLocker]) (lockKey (mock [ConstructLocker]) mock_request) 0
      = (Inl (Error ''lock unavailable''), 1)"
    by (simp add: mock_def)
  from unlock_once_iff_lock_succeeded[of "mock [ConstructLocker]" mock_request 0] h1 h2
  have "returned (mock [ConstructLocker]) mock_request 0
      = (None, Some (Error ''lock unavailable''))"
    by blast
  moreover have "list_ex (\<lambda>c. is_Lock c \<and> call_error c = None) (trace (mock []) mock_request 0)"
    by (simp add: trace_def mock_run_ok is_Lock_def)
  with unlock_once_iff_lock_succeeded[of "mock []" mock_request 0]
  have "length (filter is_Unlock (trace (mock []) mock_request 0)) = 1"
    by simp
  ultimately show ?thesis
    by (simp add: trace_def mock_run_no_locker is_Unlock_def)
qed

text \<open>
  C10: the callback of the update returns nil, leaves the root as it is and changes the
  presence by \<open>Clear\<close> only. In every run that creates a change pack, the document that
  is packaged is the built document after one \<open>Update\<close> with that callback, the only
  \<open>Update\<close> of the run, and every pack handed to \<open>PushPull\<close> is that change pack.
\<close>

theorem update_callback_only_clears_presence:
  "(\<forall>root p. DetachDocument_updater env root p = (None, root, Clear env p))
    \<and> (\<forall>d pack. CreateChangePackCall d pack \<in> set (trace env req b) \<longrightarrow>
          pack = CreateChangePack env d
        \<and> (\<exists>di cp a doc. BuildDocForCheckpointCall di cp a (Inr doc) \<in> set (trace env req b)
              \<and> Update env doc (DetachDocument_updater env) = (None, d)
              \<and> filter is_Update (trace env req b) = [UpdateCall doc None d]))
    \<and> (\<forall>pr ci di pack opts r. PushPullCall pr ci di pack opts r \<in> set (trace env req b) \<longrightarrow>
          (\<exists>d. CreateChangePackCall d pack \<in> set (trace env req b)))"
proof (intro conjI allI impI)
  fix root p
  show "DetachDocument_updater env root p = (None, root, Clear env p)"
    by (simp add: DetachDocument_updater_def)
next
  fix d pack
  assume m: "CreateChangePackCall d pack \<in> set (trace env req b)"
  then show "pack = CreateChangePack env d"
    by (cases rule: run_cases[of env req b]) (auto simp: trace_def release_calls_mem)
  from m show "\<exists>di cp a doc. BuildDocForCheckpointCall di cp a (Inr doc) \<in> set (trace env req b)
      \<and> Update env doc (DetachDocument_updater env) = (None, d)
      \<and> filter is_Update (trace env req b) = [UpdateCall doc None d]"
    by (cases rule: run_cases[of env req b])
      (auto simp: trace_def release_calls_mem release_calls_Update is_Update_def)
next
  fix pr ci di pack opts r
  assume "PushPullCall pr ci di pack opts r \<in> set (trace env req b)"
  then show "\<exists>d. CreateChangePackCall d pack \<in> set (trace env req b)"
    by (cases rule: run_cases[of env req b]) (auto simp: trace_def release_calls_mem)
qed

theorem update_callback_only_clears_presence_witness:
  "CreateChangePackCall ([''title''], [], 1) ([], 1) \<in> set (trace (mock []) mock_request 0)
    \<and> filter is_Update (trace (mock []) mock_request 0)
        = [UpdateCall ([''title''], [(''cursor'', ''7'')], 0) None ([''title''], [], 1)]
    \<and> DetachDocument_updater (mock []) [''title''] [(''cursor'', ''7'')] = (None, [''title''], [])"
proof -
  have h: "CreateChangePackCall ([''title''], [], 1) ([], 1)
      \<in> set (trace (mock []) mock_request 0)"
    by (simp add: trace_def mock_run_ok)
  from update_callback_only_clears_presence[of "mock []" mock_request 0]
  have "DetachDocument_updater (mock []) [''title''] [(''cursor'', ''7'')]
      = (None, [''title''], Clear (mock []) [(''cursor'', ''7'')])"
    by blast
  with h show ?thesis
    by (simp add: trace_def mock_run_ok is_Update_def) (simp add: mock_def)
qed

end
